theory Spec2Isabelle
  imports Complex_Main "HOL-Library.Product_Lexorder" "HOL-Library.Multiset"
    "HOL-Library.List_Lexorder" "HOL-Library.Char_ord"
begin

section \<open>Numbers and errors\<close>

text \<open>
  Marks, weights and grades are SQL decimals in the tables of the migration; they are
  modelled by \<^typ>\<open>real\<close>. The services compute with JavaScript numbers, which are
  IEEE doubles. Of that arithmetic the functions modelled here keep the comparisons,
  the sign of a difference, and the sums and differences of integer counters, which
  doubles compute as the numbers they stand for; no other sum, no product, quotient or
  rounding of doubles reaches a result of the model.

  A value that the schema stores in a \<open>DECIMAL(5,2)\<close> keeps two decimals: PostgreSQL
  rounds a \<open>numeric\<close> to the scale of its column, a half going away from zero.
\<close>

definition numeric_scale_2 :: "real \<Rightarrow> real" where
  "numeric_scale_2 x =
     (if x < 0 then - (real_of_int \<lfloor>- x * 100 + 1 / 2\<rfloor> / 100)
      else real_of_int \<lfloor>x * 100 + 1 / 2\<rfloor> / 100)"

text \<open>
  \<open>new ServiceError(message, statusCode, code)\<close>: the three arguments, in the order of
  the constructor calls of the services.
\<close>

datatype service_error = ServiceError string int string

fun error_message :: "service_error \<Rightarrow> string" where
  "error_message (ServiceError m s c) = m"

fun error_code :: "service_error \<Rightarrow> string" where
  "error_code (ServiceError m s c) = c"

text \<open>
  What a function of the services can throw: a \<open>ServiceError\<close>; the \<open>ReferenceError\<close>
  of JavaScript for a name that is read and bound nowhere, kept with that name; the
  error with which a statement sent to the database is rejected, kept with its message.
  \<open>js_message\<close> is the property \<open>message\<close> of the error.
\<close>

datatype js_error =
    Service_error service_error
  | Reference_error string
  | Database_error string

fun js_message :: "js_error \<Rightarrow> string" where
  "js_message (Service_error e) = error_message e"
| "js_message (Reference_error x) = x @ '' is not defined''"
| "js_message (Database_error m) = m"

text \<open>Template literals print a number; the numbers printed here are point scales.\<close>

definition digit_char :: "nat \<Rightarrow> char" where
  "digit_char n = ''0123456789'' ! n"

fun show_nat :: "nat \<Rightarrow> string" where
  "show_nat n = (if n < 10 then [digit_char n] else show_nat (n div 10) @ [digit_char (n mod 10)])"

definition show_int :: "int \<Rightarrow> string" where
  "show_int i = (if i < 0 then CHR ''-'' # show_nat (nat (- i)) else show_nat (nat i))"

section \<open>Evaluation entries (models/Evaluation.ts)\<close>

datatype statut = Provisoire | Definitif | Annule | En_attente | Rattrapage

datatype mode_saisie = Manuel | Import | Systeme | Compensation

type_synonym date = int

text \<open>
  The fields of \<open>EvaluationWithDetails\<close> that \<open>getNoteFinaleUE\<close> reads: one row per
  entry of the student in the teaching unit, joined with its component. Dates are
  modelled by their time value; the \<open>created_at\<close> and \<open>updated_at\<close> stamps of the rows
  are left out of every record.
\<close>

record evaluation_details =
  ed_type_composante :: string
  ed_note :: real
  ed_note_sur_20 :: real
  ed_pourcentage :: real
  ed_statut :: statut

record detail_note =
  dn_type_composante :: string
  dn_note :: real
  dn_note_sur_20 :: real
  dn_pourcentage :: real
  dn_contribution :: real

record note_finale_result =
  note_finale :: real
  est_capitalisee :: bool
  mention :: string
  details :: "detail_note list"

section \<open>EvaluationService.getNoteFinaleUE\<close>

text \<open>
  \<open>getNoteFinaleUE\<close> takes what its three repository reads answer: whether the student
  is valid, the teaching unit if there is one (here its code), and the entries of the
  student in the unit. It calls no repository write.

  With a valid student and a unit, the function adds up the entries in the locals
  \<open>noteFinale\<close> and \<open>details\<close>, declares \<open>estCapitalisee\<close> and \<open>mention\<close>, and
  returns an object literal whose second property is the shorthand \<open>est_capitalisee\<close>.
  No variable of that name is declared in the function, the class, the module or its
  imports: the evaluation of the literal throws a \<open>ReferenceError\<close>. The \<open>catch\<close> of the
  function logs the error, naming each property of its log entry, and throws it again.
  The locals do not outlive the call; they are not part of the model.
\<close>

definition getNoteFinaleUE ::
  "bool \<Rightarrow> string option \<Rightarrow> evaluation_details list \<Rightarrow> js_error + note_finale_result" where
  "getNoteFinaleUE etudiantValide ue evaluations =
     (if \<not> etudiantValide
      then Inl (Service_error (ServiceError ''Student not found'' 404 ''ETUDIANT_NOT_FOUND''))
      else if ue = None
      then Inl (Service_error (ServiceError ''UE not found'' 404 ''UE_NOT_FOUND''))
      else Inl (Reference_error ''est_capitalisee''))"

text \<open>The entries that count, in the words of the specification.\<close>

definition qualifiantes :: "evaluation_details list \<Rightarrow> evaluation_details list" where
  "qualifiantes evaluations =
     filter (\<lambda>e. ed_statut e = Definitif \<or> ed_statut e = Rattrapage) evaluations"

section \<open>The evaluation ledger\<close>

text \<open>
  The tables \<open>composantes_evaluation\<close> and \<open>resultats_evaluation\<close> of the migration,
  and \<open>ComposanteEvaluation\<close>, \<open>ResultatEvaluation\<close> of the models.
\<close>

datatype type_composante = CC | SN | SR | TP | TPE | PROJET

record composante =
  c_id :: nat
  c_code_ue :: string
  c_type_composante :: type_composante
  c_nom_composante :: string
  c_pourcentage :: real
  c_nb_points :: int
  c_ordre :: int

record resultat =
  r_id :: nat
  r_matricule_etudiant :: string
  r_composante_id :: nat
  r_note :: real
  r_note_sur_20 :: real
  r_date_evaluation :: date
  r_saisie_par :: string
  r_statut :: statut
  r_mode_saisie :: mode_saisie
  r_commentaire :: "string option"
  r_version :: int

record ledger =
  composantes :: "composante list"
  resultats :: "resultat list"
  resultats_id_seq :: nat

text \<open>
  The generated column \<open>note_sur_20\<close> of \<open>resultats_evaluation\<close>: the expression of the
  migration, on the point scale of the component of the row, stored in the
  \<open>DECIMAL(5,2)\<close> of the column. A value of 1000 or more does not fit the column and
  makes the write fail; the model leaves that out, a mark that the services accept being
  at most the point scale.
\<close>

definition sql_note_sur_20 :: "int \<Rightarrow> real \<Rightarrow> real" where
  "sql_note_sur_20 nb_points note =
     (if nb_points = 0 then 0 else numeric_scale_2 ((note * 20) / real_of_int nb_points))"

text \<open>
  What the services ask about students and rights is answered outside the notation
  tables; the answers are parameters.
\<close>

record ports =
  validateEtudiant :: "string \<Rightarrow> bool"
  canSaisirNote :: "string \<Rightarrow> string \<Rightarrow> bool"
  canValidateNote :: "string \<Rightarrow> nat \<Rightarrow> bool"
  canUpdateNote :: "string \<Rightarrow> nat \<Rightarrow> bool"
  canSetRattrapage :: "string \<Rightarrow> nat \<Rightarrow> bool"

subsection \<open>The repository of evaluations\<close>

text \<open>
  Of the class \<open>EvaluationRepository\<close> the sources hold the methods \<open>create\<close> and
  \<open>findByUE\<close>. The other methods that \<open>EvaluationService\<close> calls are not among the
  sources; they are the row operations on the two tables. The trigger of the migration
  that recomputes a final grade after a write keeps another table; it is modelled on its
  own in the next section, and the writes of the ledger are taken without it.
\<close>

text \<open>Modelled from the spec: \<open>EvaluationRepository.getComposante\<close>, missing from the sources; the
  component with this identifier if the reference resolves.\<close>
definition getComposante :: "ledger \<Rightarrow> nat \<Rightarrow> composante option" where
  "getComposante db i = find (\<lambda>c. c_id c = i) (composantes db)"

text \<open>Modelled from the spec: \<open>EvaluationRepository.findByEtudiantAndComposante\<close>, missing from
  the sources; the entry of the (student, component) pair if there is one.\<close>
definition findByEtudiantAndComposante :: "ledger \<Rightarrow> string \<Rightarrow> nat \<Rightarrow> resultat option" where
  "findByEtudiantAndComposante db m i =
     find (\<lambda>r. r_matricule_etudiant r = m \<and> r_composante_id r = i) (resultats db)"

text \<open>Modelled from the spec: \<open>EvaluationRepository.findById\<close>, missing from the sources; the entry
  with this identifier if there is one.\<close>
definition findById :: "ledger \<Rightarrow> nat \<Rightarrow> resultat option" where
  "findById db i = find (\<lambda>r. r_id r = i) (resultats db)"

text \<open>
  The object handed to \<open>update\<close>: a key that is absent is \<open>None\<close>. The services always
  hand over the key \<open>commentaire\<close> when they write a note, with the comment of the
  request, which may itself be absent. A note that is written is stored in the
  \<open>DECIMAL(5,2)\<close> of the column \<open>note\<close>, and the generated column is computed from
  the note that is stored.
\<close>

record patch =
  p_note :: "real option"
  p_date_evaluation :: "date option"
  p_commentaire :: "string option option"
  p_statut :: "statut option"
  p_version :: "int option"

definition patch_vide :: patch where
  "patch_vide = \<lparr>p_note = None, p_date_evaluation = None, p_commentaire = None,
                  p_statut = None, p_version = None\<rparr>"

definition apply_patch :: "composante \<Rightarrow> patch \<Rightarrow> resultat \<Rightarrow> resultat" where
  "apply_patch c p r =
     (let n = (case p_note p of None \<Rightarrow> r_note r | Some v \<Rightarrow> numeric_scale_2 v)
      in r\<lparr>r_note := n,
            r_note_sur_20 := sql_note_sur_20 (c_nb_points c) n,
            r_date_evaluation := (case p_date_evaluation p of None \<Rightarrow> r_date_evaluation r | Some d \<Rightarrow> d),
            r_commentaire := (case p_commentaire p of None \<Rightarrow> r_commentaire r | Some t \<Rightarrow> t),
            r_statut := (case p_statut p of None \<Rightarrow> r_statut r | Some s \<Rightarrow> s),
            r_version := (case p_version p of None \<Rightarrow> r_version r | Some v \<Rightarrow> v)\<rparr>)"

fun update_row :: "nat \<Rightarrow> resultat \<Rightarrow> resultat list \<Rightarrow> resultat list" where
  "update_row i r' [] = []"
| "update_row i r' (r # rs) = (if r_id r = i then r' # rs else r # update_row i r' rs)"

text \<open>Modelled from the spec: \<open>EvaluationRepository.update\<close>, missing from the sources. The row
  with this identifier takes the values of the patch, its generated column is computed
  again, and the updated row is returned; the table keeps its rows otherwise. Without the
  row, or without its component, the write fails.\<close>
definition repo_update :: "ledger \<Rightarrow> nat \<Rightarrow> patch \<Rightarrow> service_error + (resultat \<times> ledger)" where
  "repo_update db i p =
     (case findById db i of
        None \<Rightarrow> Inl (ServiceError ''Evaluation not found'' 404 ''EVALUATION_NOT_FOUND'')
      | Some r \<Rightarrow>
          (case getComposante db (r_composante_id r) of
             None \<Rightarrow> Inl (ServiceError ''Database error'' 500 ''DB_ERROR'')
           | Some c \<Rightarrow>
               (let r' = apply_patch c p r
                in Inr (r', db\<lparr>resultats := update_row i r' (resultats db)\<rparr>))))"

record nouvelle_evaluation =
  ne_matricule_etudiant :: string
  ne_composante_id :: nat
  ne_note :: real
  ne_date_evaluation :: date
  ne_saisie_par :: string
  ne_commentaire :: "string option"
  ne_statut :: statut
  ne_mode_saisie :: mode_saisie

text \<open>
  \<open>EvaluationRepository.create\<close>, as the sources have it: the statement
  \<open>INSERT INTO notation.evaluations (code_ue, type, coefficient) VALUES ($1, $2, $3)
  RETURNING *\<close> with the values \<open>data.codeUE\<close>, \<open>data.type\<close> and \<open>data.coefficient\<close>,
  of which it returns the first row of the answer. The object that the service hands
  over has the keys of \<open>nouvelle_evaluation\<close> and none of these three: each value is
  \<open>undefined\<close>, which the driver sends as \<open>NULL\<close>. The statement does not name
  \<open>resultats_evaluation\<close>: the ledger is as before. The migration creates no table
  \<open>notation.evaluations\<close>; what the database answers to the statement is the parameter
  \<open>pool\<close>, the message of an error or the row returned.
\<close>

record ligne_evaluation =
  le_code_ue :: "string option"
  le_type :: "string option"
  le_coefficient :: "real option"

definition repo_create ::
  "(ligne_evaluation \<Rightarrow> string + ligne_evaluation) \<Rightarrow> nouvelle_evaluation
   \<Rightarrow> js_error + ligne_evaluation" where
  "repo_create pool data =
     (case pool \<lparr>le_code_ue = None, le_type = None, le_coefficient = None\<rparr> of
        Inl message \<Rightarrow> Inl (Database_error message)
      | Inr row \<Rightarrow> Inr row)"

subsection \<open>EvaluationService.createEvaluation\<close>

record create_evaluation_dto =
  ce_matricule_etudiant :: string
  ce_composante_id :: nat
  ce_note :: real
  ce_date_evaluation :: date
  ce_saisie_par :: string
  ce_commentaire :: "string option"

definition note_range_error :: "composante \<Rightarrow> service_error" where
  "note_range_error c =
     ServiceError (''Note must be between 0 and '' @ show_int (c_nb_points c)) 400 ''INVALID_NOTE_RANGE''"



subsection \<open>EvaluationService.createBatchEvaluations\<close>

record batch_item =
  bi_matricule_etudiant :: string
  bi_note :: real
  bi_commentaire :: "string option"

record batch_evaluation_dto =
  be_composante_id :: nat
  be_date_evaluation :: date
  be_saisie_par :: string
  be_evaluations :: "batch_item list"

record batch_results =
  success :: nat
  failed :: nat
  errors :: "(string \<times> string) list"

text \<open>The body of the \<open>try\<close> of one item: the error thrown, or the ledger after the call.\<close>

definition traiter_item ::
  "ports \<Rightarrow> (ligne_evaluation \<Rightarrow> string + ligne_evaluation) \<Rightarrow> composante \<Rightarrow> batch_evaluation_dto
   \<Rightarrow> ledger \<Rightarrow> batch_item \<Rightarrow> js_error + ledger" where
  "traiter_item io pool c data db evalData =
     (if \<not> validateEtudiant io (bi_matricule_etudiant evalData)
      then Inl (Service_error (ServiceError ''Student not found'' 404 ''ETUDIANT_NOT_FOUND''))
      else if bi_note evalData < 0 \<or> bi_note evalData > real_of_int (c_nb_points c)
      then Inl (Service_error (note_range_error c))
      else
        (case findByEtudiantAndComposante db (bi_matricule_etudiant evalData) (be_composante_id data) of
           Some existing \<Rightarrow>
             map_sum Service_error snd
               (repo_update db (r_id existing)
                  (patch_vide\<lparr>p_note := Some (bi_note evalData),
                               p_date_evaluation := Some (be_date_evaluation data),
                               p_commentaire := Some (bi_commentaire evalData),
                               p_version := Some (r_version existing + 1)\<rparr>))
         | None \<Rightarrow>
             map_sum id (\<lambda>evaluation. db)
               (repo_create pool
                  \<lparr>ne_matricule_etudiant = bi_matricule_etudiant evalData,
                   ne_composante_id = be_composante_id data,
                   ne_note = bi_note evalData,
                   ne_date_evaluation = be_date_evaluation data,
                   ne_saisie_par = be_saisie_par data,
                   ne_commentaire = bi_commentaire evalData,
                   ne_statut = Provisoire,
                   ne_mode_saisie = Manuel\<rparr>)))"

text \<open>The \<open>for\<close> loop: the \<open>catch\<close> of an item counts the failure and goes on.\<close>

fun boucle_batch ::
  "ports \<Rightarrow> (ligne_evaluation \<Rightarrow> string + ligne_evaluation) \<Rightarrow> composante \<Rightarrow> batch_evaluation_dto
   \<Rightarrow> batch_item list \<Rightarrow> batch_results \<Rightarrow> ledger \<Rightarrow> batch_results \<times> ledger" where
  "boucle_batch io pool c data [] results db = (results, db)"
| "boucle_batch io pool c data (evalData # rest) results db =
     (case traiter_item io pool c data db evalData of
        Inr db' \<Rightarrow> boucle_batch io pool c data rest (results\<lparr>success := success results + 1\<rparr>) db'
      | Inl error \<Rightarrow>
          boucle_batch io pool c data rest
            (results\<lparr>failed := failed results + 1,
                      errors := errors results @ [(bi_matricule_etudiant evalData, js_message error)]\<rparr>)
            db)"

definition createBatchEvaluations ::
  "ports \<Rightarrow> (ligne_evaluation \<Rightarrow> string + ligne_evaluation) \<Rightarrow> ledger \<Rightarrow> batch_evaluation_dto
   \<Rightarrow> js_error + (batch_results \<times> ledger)" where
  "createBatchEvaluations io pool db data =
     (case getComposante db (be_composante_id data) of
        None \<Rightarrow> Inl (Service_error
                      (ServiceError ''Evaluation component not found'' 404 ''COMPOSANTE_NOT_FOUND''))
      | Some c \<Rightarrow>
          if \<not> canSaisirNote io (be_saisie_par data) (c_code_ue c)
          then Inl (Service_error
                      (ServiceError ''Teacher not authorized to enter grades for this UE'' 403
                         ''NOT_AUTHORIZED''))
          else Inr (boucle_batch io pool c data (be_evaluations data)
                      \<lparr>success = 0, failed = 0, errors = []\<rparr> db))"


subsection \<open>EvaluationService.validateEvaluation and updateEvaluationStatus\<close>

definition validateEvaluation ::
  "ports \<Rightarrow> ledger \<Rightarrow> nat \<Rightarrow> string \<Rightarrow> service_error + (resultat \<times> ledger)" where
  "validateEvaluation io db evaluationId validatedBy =
     (case findById db evaluationId of
        None \<Rightarrow> Inl (ServiceError ''Evaluation not found'' 404 ''EVALUATION_NOT_FOUND'')
      | Some evaluation \<Rightarrow>
          if r_statut evaluation = Definitif
          then Inl (ServiceError ''Evaluation already validated'' 400 ''ALREADY_VALIDATED'')
          else if \<not> canValidateNote io validatedBy (r_composante_id evaluation)
          then Inl (ServiceError ''Not authorized to validate this evaluation'' 403 ''NOT_AUTHORIZED'')
          else repo_update db evaluationId (patch_vide\<lparr>p_statut := Some Definitif\<rparr>))"

definition updateEvaluationStatus ::
  "ports \<Rightarrow> ledger \<Rightarrow> nat \<Rightarrow> statut \<Rightarrow> string \<Rightarrow> service_error + (resultat \<times> ledger)" where
  "updateEvaluationStatus io db evaluationId st updatedBy =
     (case findById db evaluationId of
        None \<Rightarrow> Inl (ServiceError ''Evaluation not found'' 404 ''EVALUATION_NOT_FOUND'')
      | Some evaluation \<Rightarrow>
          if \<not> canUpdateNote io updatedBy (r_composante_id evaluation)
          then Inl (ServiceError ''Not authorized to update this evaluation'' 403 ''NOT_AUTHORIZED'')
          else if st = Rattrapage
                  \<and> \<not> canSetRattrapage io (r_matricule_etudiant evaluation) (r_composante_id evaluation)
          then Inl (ServiceError ''Cannot set evaluation as rattrapage'' 400 ''CANNOT_SET_RATTRAPAGE'')
          else repo_update db evaluationId
                 (patch_vide\<lparr>p_statut := Some st, p_version := Some (r_version evaluation + 1)\<rparr>))"

text \<open>
  The state machine of the specification, in its words: the transitions it permits.
\<close>

fun transition_permise :: "statut \<Rightarrow> statut \<Rightarrow> bool" where
  "transition_permise En_attente s = (s = Provisoire \<or> s = Definitif \<or> s = Annule \<or> s = Rattrapage)"
| "transition_permise Provisoire s = (s = Provisoire \<or> s = Definitif \<or> s = Annule \<or> s = Rattrapage)"
| "transition_permise Definitif s = (s = Annule \<or> s = Rattrapage)"
| "transition_permise Annule s = False"
| "transition_permise Rattrapage s = (s = Definitif \<or> s = Annule)"

section \<open>The final grades of the schema and their trigger\<close>

datatype statut_ue = Actif | Inactif | Archive

record unite =
  u_code_ue :: string
  u_nom_ue :: string
  u_niveau :: string
  u_filiere :: string
  u_credits_ects :: int
  u_annee_acad :: string
  u_statut :: statut_ue
  u_deleted_at :: "date option"

record note_finale_ue =
  nf_matricule_etudiant :: string
  nf_code_ue :: string
  nf_annee_acad :: string
  nf_note_finale :: real
  nf_est_capitalisee :: bool
  nf_mention :: string
  nf_version_calcul :: int

datatype sql_error = Sql_exception string

text \<open>
  \<open>notation.update_note_finale_ue\<close>, the function of the trigger on
  \<open>resultats_evaluation\<close>. It reads the ledger and the teaching units and writes the table
  \<open>notes_finales_ue\<close>, which it returns. The first \<open>SELECT INTO\<close> takes the unit of the
  component of the written row and its academic year. The second puts the \<open>SUM\<close> into
  the variable \<open>v_note_finale\<close>, a \<open>DECIMAL(5,2)\<close>, and the flag and the mention that
  it computes from the \<open>SUM\<close> itself into the two other variables.
\<close>

definition ue_de_composante :: "ledger \<Rightarrow> unite list \<Rightarrow> nat \<Rightarrow> (string \<times> string) option" where
  "ue_de_composante db unites i =
     (case [(c_code_ue ce, u_annee_acad ue).
              ce \<leftarrow> composantes db, ue \<leftarrow> unites, c_code_ue ce = u_code_ue ue \<and> c_id ce = i] of
        [] \<Rightarrow> None
      | v # _ \<Rightarrow> Some v)"

text \<open>The rows of the second \<open>SELECT\<close>, each with the term it adds to the \<open>SUM\<close>.\<close>

definition contributions_sql :: "ledger \<Rightarrow> string \<Rightarrow> string \<Rightarrow> real list" where
  "contributions_sql db m v_code_ue =
     [r_note_sur_20 re * c_pourcentage ce / 100.
        re \<leftarrow> resultats db, ce \<leftarrow> composantes db,
        r_composante_id re = c_id ce \<and> r_matricule_etudiant re = m \<and> c_code_ue ce = v_code_ue
          \<and> (r_statut re = Definitif \<or> r_statut re = Rattrapage)]"

definition mention_sql :: "real \<Rightarrow> string" where
  "mention_sql s =
     (if s \<ge> 18 then ''excellent''
      else if s \<ge> 16 then ''tres-bien''
      else if s \<ge> 14 then ''bien''
      else if s \<ge> 12 then ''assez-bien''
      else if s \<ge> 10 then ''passable''
      else ''echec'')"

text \<open>The two \<open>CHECK\<close> constraints of \<open>notes_finales_ue\<close>.\<close>

definition check_note_finale_ue :: "note_finale_ue \<Rightarrow> bool" where
  "check_note_finale_ue row =
     (nf_note_finale row \<ge> 0 \<and> nf_note_finale row \<le> 20
      \<and> nf_mention row \<in> set [''elimine'', ''echec'', ''passable'', ''assez-bien'', ''tres-bien'', ''excellent''])"

text \<open>\<open>INSERT ... ON CONFLICT (matricule_etudiant, code_ue, annee_acad) DO UPDATE\<close>.\<close>

fun upsert_note_finale :: "note_finale_ue \<Rightarrow> note_finale_ue list \<Rightarrow> note_finale_ue list" where
  "upsert_note_finale row [] = [row]"
| "upsert_note_finale row (x # xs) =
     (if nf_matricule_etudiant x = nf_matricule_etudiant row \<and> nf_code_ue x = nf_code_ue row
         \<and> nf_annee_acad x = nf_annee_acad row
      then x\<lparr>nf_note_finale := nf_note_finale row,
              nf_est_capitalisee := nf_est_capitalisee row,
              nf_mention := nf_mention row,
              nf_version_calcul := nf_version_calcul x + 1\<rparr> # xs
      else x # upsert_note_finale row xs)"

definition update_note_finale_ue ::
  "ledger \<Rightarrow> unite list \<Rightarrow> note_finale_ue list \<Rightarrow> resultat \<Rightarrow> sql_error + note_finale_ue list" where
  "update_note_finale_ue db unites nfs NEW =
     (case ue_de_composante db unites (r_composante_id NEW) of
        None \<Rightarrow> Inl (Sql_exception ''null value in column code_ue'')
      | Some (v_code_ue, v_annee_acad) \<Rightarrow>
          (case contributions_sql db (r_matricule_etudiant NEW) v_code_ue of
             [] \<Rightarrow> Inl (Sql_exception ''null value in column note_finale'')
           | t # ts \<Rightarrow>
               (let s = sum_list (t # ts);
                    v_note_finale = numeric_scale_2 s;
                    row = \<lparr>nf_matricule_etudiant = r_matricule_etudiant NEW,
                           nf_code_ue = v_code_ue,
                           nf_annee_acad = v_annee_acad,
                           nf_note_finale = v_note_finale,
                           nf_est_capitalisee = (s \<ge> 10),
                           nf_mention = mention_sql s,
                           nf_version_calcul = 1\<rparr>
                in if \<bar>v_note_finale\<bar> \<ge> 1000 then Inl (Sql_exception ''numeric field overflow'')
                   else if check_note_finale_ue row then Inr (upsert_note_finale row nfs)
                   else Inl (Sql_exception ''check constraint of notes_finales_ue''))))"

text \<open>
  \<open>trg_update_note_finale\<close>: after the insert or update of a row of
  \<open>resultats_evaluation\<close>, when the status of the new row is \<open>definitif\<close> or
  \<open>rattrapage\<close>. The ledger passed is the one after the write.
\<close>

definition trg_update_note_finale ::
  "ledger \<Rightarrow> unite list \<Rightarrow> note_finale_ue list \<Rightarrow> resultat \<Rightarrow> sql_error + note_finale_ue list" where
  "trg_update_note_finale db unites nfs NEW =
     (if r_statut NEW = Definitif \<or> r_statut NEW = Rattrapage
      then update_note_finale_ue db unites nfs NEW
      else Inr nfs)"

text \<open>
  The entries of a student in a teaching unit whose status is final or retake, in the
  words of the specification.
\<close>

definition entrees_qualifiantes :: "ledger \<Rightarrow> string \<Rightarrow> string \<Rightarrow> resultat list" where
  "entrees_qualifiantes db m code =
     filter (\<lambda>re. r_matricule_etudiant re = m
                 \<and> (r_statut re = Definitif \<or> r_statut re = Rattrapage)
                 \<and> list_ex (\<lambda>ce. c_id ce = r_composante_id re \<and> c_code_ue ce = code) (composantes db))
       (resultats db)"

section \<open>CalculService\<close>

text \<open>
  Of the repository class of \<open>CalculService\<close> the sources hold no method that the
  functions below call. What its reads answer is a parameter of each function.
\<close>

subsection \<open>calculerMoyennesEtudiant\<close>

record detail_ue =
  du_code_ue :: string
  du_nom_ue :: string
  du_note_finale :: "real option"
  du_est_capitalisee :: bool
  du_credits :: int
  du_mention :: string

record calcul_result =
  cr_matricule_etudiant :: string
  cr_niveau :: string
  cr_annee_acad :: string
  moyenne_generale :: real
  moyenne_ponderee :: real
  pourcentage_capitalisation :: real
  ue_capitalisees :: nat
  ue_total :: nat
  credits_obtenus :: int
  credits_total :: int
  cr_details :: "detail_ue list"

text \<open>
  The body of the \<open>try\<close>. \<open>etudiantValide\<close> is the answer of \<open>validateEtudiantNiveau\<close>,
  \<open>ues\<close> the answer of \<open>getUEsByNiveau\<close>. After the two checks the function reads the
  final grade of each unit and adds up the locals \<open>sommeMoyennes\<close>,
  \<open>sommeMoyennesPonderees\<close>, \<open>totalCredits\<close>, \<open>creditsObtenus\<close> and \<open>ueCapitalisees\<close>;
  then it builds the object literal \<open>result\<close>, whose first property is the shorthand
  \<open>matricule_etudiant\<close>. The parameter is \<open>matriculeEtudiant\<close> and no variable of the
  name \<open>matricule_etudiant\<close> is declared: the evaluation of the literal throws a
  \<open>ReferenceError\<close>, before \<open>updateRecapEtudiant\<close> is called. The body ends in an error on
  every path; the locals are not part of the model.
\<close>

definition calculerMoyennesEtudiant_try :: "bool \<Rightarrow> unite list \<Rightarrow> js_error" where
  "calculerMoyennesEtudiant_try etudiantValide ues =
     (if \<not> etudiantValide
      then Service_error
             (ServiceError ''Student not found or not enrolled in this level'' 404 ''ETUDIANT_INVALIDE'')
      else if length ues = 0
      then Service_error
             (ServiceError ''No UE found for this level and academic year'' 404 ''NO_UE_FOUND'')
      else Reference_error ''matricule_etudiant'')"

text \<open>
  The \<open>catch\<close> of the function: before \<open>throw error\<close> it builds the entry of the log from
  the shorthands \<open>matricule_etudiant\<close>, \<open>niveau\<close> and \<open>annee_acad\<close>. The first is bound
  nowhere: the \<open>catch\<close> throws a \<open>ReferenceError\<close> of its own and the error it has caught
  is lost.
\<close>

definition calculerMoyennesEtudiant_catch :: "js_error \<Rightarrow> js_error" where
  "calculerMoyennesEtudiant_catch error = Reference_error ''matricule_etudiant''"

definition calculerMoyennesEtudiant ::
  "bool \<Rightarrow> unite list \<Rightarrow> string \<Rightarrow> string \<Rightarrow> string \<Rightarrow> js_error + calcul_result" where
  "calculerMoyennesEtudiant etudiantValide ues matriculeEtudiant niveau anneeAcad =
     Inl (calculerMoyennesEtudiant_catch (calculerMoyennesEtudiant_try etudiantValide ues))"

subsection \<open>verifierEligibiliteDeliberation\<close>

record params_deliberation =
  min_capitalisation :: real
  max_ue_non_capitalisees :: real

record critere =
  critere :: string
  valeur :: real
  seuil :: real
  respecte :: bool

record eligibilite_details =
  el_pourcentage_capitalisation :: real
  el_ue_non_capitalisees :: int
  el_ue_total :: nat
  criteres :: "critere list"

record eligibilite =
  eligible :: bool
  raison :: "string option"
  el_details :: eligibilite_details

text \<open>\<open>Array.prototype.join\<close> with the separator of the service.\<close>

fun join_virgule :: "string list \<Rightarrow> string" where
  "join_virgule [] = []"
| "join_virgule [s] = s"
| "join_virgule (s # t # rest) = s @ '', '' @ join_virgule (t # rest)"

definition nom_critere1 :: string where
  "nom_critere1 = ''Pourcentage de capitalisation''"

definition nom_critere2 :: string where
  "nom_critere2 = ''UE non capitalis'' @ [CHR 0xE9] @ ''es''"

definition prefixe_raison :: string where
  "prefixe_raison = ''Non respect des crit'' @ [CHR 0xE8] @ ''res: ''"

text \<open>
  \<open>params\<close> is the answer of \<open>getParamsDeliberation\<close> for the level; the other
  parameters are those of \<open>calculerMoyennesEtudiant\<close>, which the function calls. Its
  \<open>catch\<close> names each property of its log entry and throws again the error it has caught.
\<close>

definition verifierEligibiliteDeliberation ::
  "params_deliberation option \<Rightarrow> bool \<Rightarrow> unite list \<Rightarrow> string \<Rightarrow> string \<Rightarrow> string
   \<Rightarrow> js_error + eligibilite" where
  "verifierEligibiliteDeliberation params etudiantValide ues matriculeEtudiant niveau anneeAcad =
     (case params of
        None \<Rightarrow> Inl (Service_error
                      (ServiceError ''Deliberation parameters not found for this level'' 404
                         ''PARAMS_NOT_FOUND''))
      | Some ps \<Rightarrow>
          (case calculerMoyennesEtudiant etudiantValide ues matriculeEtudiant niveau anneeAcad of
             Inl e \<Rightarrow> Inl e
           | Inr stats \<Rightarrow>
               (let critere1 = \<lparr>critere = nom_critere1,
                                valeur = pourcentage_capitalisation stats,
                                seuil = min_capitalisation ps,
                                respecte = (pourcentage_capitalisation stats \<ge> min_capitalisation ps)\<rparr>;
                    ueNonCapitalisees = int (ue_total stats) - int (ue_capitalisees stats);
                    critere2 = \<lparr>critere = nom_critere2,
                                valeur = real_of_int ueNonCapitalisees,
                                seuil = max_ue_non_capitalisees ps,
                                respecte = (real_of_int ueNonCapitalisees \<le> max_ue_non_capitalisees ps)\<rparr>;
                    cs = [critere1, critere2];
                    el = (respecte critere1 \<and> respecte critere2);
                    rs = (if \<not> el
                          then Some (prefixe_raison
                                       @ join_virgule (map critere (filter (\<lambda>c. \<not> respecte c) cs)))
                          else None)
                in Inr \<lparr>eligible = el,
                         raison = rs,
                         el_details = \<lparr>el_pourcentage_capitalisation = pourcentage_capitalisation stats,
                                       el_ue_non_capitalisees = ueNonCapitalisees,
                                       el_ue_total = ue_total stats,
                                       criteres = cs\<rparr>\<rparr>)))"

subsection \<open>Array.prototype.sort\<close>

text \<open>
  \<open>sort\<close> with a comparison function is stable: two elements that the function does not
  order keep the order they had. For a function that orders consistently the sorted array
  is the one that stable insertion builds; \<open>c a b \<le> 0\<close> leaves \<open>a\<close> before \<open>b\<close>.
\<close>

fun insort_cmp :: "('a \<Rightarrow> 'a \<Rightarrow> real) \<Rightarrow> 'a \<Rightarrow> 'a list \<Rightarrow> 'a list" where
  "insort_cmp c x [] = [x]"
| "insort_cmp c x (y # ys) = (if c x y \<le> 0 then x # y # ys else y # insort_cmp c x ys)"

definition sort_cmp :: "('a \<Rightarrow> 'a \<Rightarrow> real) \<Rightarrow> 'a list \<Rightarrow> 'a list" where
  "sort_cmp c xs = foldr (insort_cmp c) xs []"

subsection \<open>calculerClassementNiveau\<close>

record recap_etudiant =
  re_matricule_etudiant :: string
  re_moyenne_generale :: "real option"
  re_moyenne_ponderee :: "real option"
  re_pourcentage_capitalisation :: "real option"
  re_decision :: "string option"

record classement_etudiant =
  rang :: nat
  cl_matricule :: string
  cl_nom :: string
  cl_prenom :: string
  cl_moyenne_generale :: real
  cl_pourcentage_capitalisation :: real
  cl_decision :: "string option"
  cl_mention :: string

text \<open>\<open>x || 0\<close> on an optional number.\<close>

definition ou_zero :: "real option \<Rightarrow> real" where
  "ou_zero v = (case v of None \<Rightarrow> 0 | Some x \<Rightarrow> x)"

text \<open>The comparison function handed to \<open>sort\<close>.\<close>

definition compare_recaps :: "recap_etudiant \<Rightarrow> recap_etudiant \<Rightarrow> real" where
  "compare_recaps a b =
     (if re_moyenne_generale b = re_moyenne_generale a
      then ou_zero (re_moyenne_ponderee b) - ou_zero (re_moyenne_ponderee a)
      else ou_zero (re_moyenne_generale b) - ou_zero (re_moyenne_generale a))"

definition calculateMentionGenerale :: "real \<Rightarrow> string" where
  "calculateMentionGenerale moyenne =
     (if moyenne \<ge> 16 then ''tr'' @ [CHR 0xE8] @ ''s bien''
      else if moyenne \<ge> 14 then ''bien''
      else if moyenne \<ge> 12 then ''assez bien''
      else if moyenne \<ge> 10 then ''passable''
      else ''echec'')"

text \<open>The loop on \<open>i\<close> over the sorted recaps; \<open>info\<close> is \<open>getEtudiantInfo\<close>.\<close>

fun boucle_classement ::
  "(string \<Rightarrow> string \<times> string) \<Rightarrow> recap_etudiant list \<Rightarrow> nat \<Rightarrow> classement_etudiant list" where
  "boucle_classement info [] i = []"
| "boucle_classement info (recap # rest) i =
     \<lparr>rang = i + 1,
      cl_matricule = re_matricule_etudiant recap,
      cl_nom = fst (info (re_matricule_etudiant recap)),
      cl_prenom = snd (info (re_matricule_etudiant recap)),
      cl_moyenne_generale = ou_zero (re_moyenne_generale recap),
      cl_pourcentage_capitalisation = ou_zero (re_pourcentage_capitalisation recap),
      cl_decision = re_decision recap,
      cl_mention = calculateMentionGenerale (ou_zero (re_moyenne_generale recap))\<rparr>
     # boucle_classement info rest (i + 1)"

text \<open>\<open>recaps\<close> is the answer of \<open>getRecapsByNiveau\<close>, in the order of the repository.\<close>

definition calculerClassementNiveau ::
  "(string \<Rightarrow> string \<times> string) \<Rightarrow> recap_etudiant list \<Rightarrow> service_error + classement_etudiant list" where
  "calculerClassementNiveau info recaps =
     (if length recaps = 0
      then Inl (ServiceError ''No students found for this level'' 404 ''NO_STUDENTS_FOUND'')
      else Inr (boucle_classement info (sort_cmp compare_recaps recaps) 0))"

text \<open>
  The sort key of a recap: both averages, negated so that the ascending order of the
  pairs is the descending order of the averages, the first component deciding.
\<close>

definition cle_recap :: "recap_etudiant \<Rightarrow> real \<times> real" where
  "cle_recap r = (- ou_zero (re_moyenne_generale r), - ou_zero (re_moyenne_ponderee r))"

text \<open>Every recap of the list has its unweighted average.\<close>

definition moyennes_presentes :: "recap_etudiant list \<Rightarrow> bool" where
  "moyennes_presentes recaps = list_all (\<lambda>r. re_moyenne_generale r \<noteq> None) recaps"

section \<open>The components of a teaching unit\<close>

record config =
  cf_unites :: "unite list"
  cf_composantes :: "composante list"
  cf_composantes_id_seq :: nat

text \<open>\<open>UERepository.findByCode\<close>: the unit with this code that is not deleted.\<close>

definition findByCode :: "unite list \<Rightarrow> string \<Rightarrow> unite option" where
  "findByCode unites codeUE = find (\<lambda>u. u_code_ue u = codeUE \<and> u_deleted_at u = None) unites"

subsection \<open>The trigger on the weights\<close>

text \<open>
  \<open>notation.check_ue_percentage_total\<close> runs after each row that is inserted, updated or
  deleted in \<open>composantes_evaluation\<close>; the table passed is the one after the write. It
  takes the unit of the new row for an insert and the unit of the old row otherwise. The
  model of the exception keeps the code of the unit of its message.
\<close>

datatype tg_event = Tg_insert composante | Tg_update composante composante | Tg_delete composante

definition somme_pourcentages :: "composante list \<Rightarrow> string \<Rightarrow> real list" where
  "somme_pourcentages table ue_code = map c_pourcentage (filter (\<lambda>c. c_code_ue c = ue_code) table)"

definition check_ue_percentage_total :: "composante list \<Rightarrow> tg_event \<Rightarrow> sql_error + unit" where
  "check_ue_percentage_total table ev =
     (let ue_code = (case ev of Tg_insert NEW \<Rightarrow> c_code_ue NEW
                              | Tg_update OLD NEW \<Rightarrow> c_code_ue OLD
                              | Tg_delete OLD \<Rightarrow> c_code_ue OLD);
          rows = somme_pourcentages table ue_code
      in if rows \<noteq> [] \<and> \<bar>sum_list rows - 100\<bar> > 1 / 100
         then Inl (Sql_exception (''Total percentage for UE '' @ ue_code @ '' must be 100%''))
         else Inr ())"

text \<open>The constraints of the table on one row, and its uniqueness constraint.\<close>

definition check_composante :: "composante \<Rightarrow> bool" where
  "check_composante c =
     (c_pourcentage c \<ge> 0 \<and> c_pourcentage c \<le> 100 \<and> c_nb_points c > 0 \<and> c_nb_points c \<le> 100)"

definition contraintes_composante :: "unite list \<Rightarrow> composante list \<Rightarrow> composante \<Rightarrow> bool" where
  "contraintes_composante unites autres c =
     (check_composante c
      \<and> list_ex (\<lambda>u. u_code_ue u = c_code_ue c) unites
      \<and> \<not> list_ex (\<lambda>x. c_code_ue x = c_code_ue c \<and> c_type_composante x = c_type_composante c) autres)"

definition sql_insert_composante :: "config \<Rightarrow> composante \<Rightarrow> sql_error + config" where
  "sql_insert_composante cfg NEW =
     (if \<not> contraintes_composante (cf_unites cfg) (cf_composantes cfg) NEW
      then Inl (Sql_exception ''constraint of composantes_evaluation'')
      else
        (let table = cf_composantes cfg @ [NEW]
         in case check_ue_percentage_total table (Tg_insert NEW) of
              Inl e \<Rightarrow> Inl e
            | Inr _ \<Rightarrow> Inr (cfg\<lparr>cf_composantes := table,
                                cf_composantes_id_seq := Suc (cf_composantes_id_seq cfg)\<rparr>)))"

fun remplacer :: "nat \<Rightarrow> composante \<Rightarrow> composante list \<Rightarrow> composante list" where
  "remplacer i c' [] = []"
| "remplacer i c' (c # cs) = (if c_id c = i then c' # cs else c # remplacer i c' cs)"

definition sql_update_composante :: "config \<Rightarrow> composante \<Rightarrow> composante \<Rightarrow> sql_error + config" where
  "sql_update_composante cfg OLD NEW =
     (if \<not> contraintes_composante (cf_unites cfg)
             (filter (\<lambda>x. c_id x \<noteq> c_id OLD) (cf_composantes cfg)) NEW
      then Inl (Sql_exception ''constraint of composantes_evaluation'')
      else
        (let table = remplacer (c_id OLD) NEW (cf_composantes cfg)
         in case check_ue_percentage_total table (Tg_update OLD NEW) of
              Inl e \<Rightarrow> Inl e
            | Inr _ \<Rightarrow> Inr (cfg\<lparr>cf_composantes := table\<rparr>)))"

subsection \<open>The repository of components\<close>

text \<open>
  \<open>ComposanteRepository\<close> is not among the sources. Its writes are the statements on
  the table, with the constraints and the trigger of the migration; an exception of the
  database comes back as the \<open>Database error\<close> that \<open>UERepository\<close> throws.
\<close>

definition db_error :: service_error where
  "db_error = ServiceError ''Database error'' 500 ''DB_ERROR''"

text \<open>Modelled from the spec: \<open>ComposanteRepository.findByUEAndType\<close>, missing from the sources;
  the component of this kind in the unit if there is one.\<close>
definition findByUEAndType :: "config \<Rightarrow> string \<Rightarrow> type_composante \<Rightarrow> composante option" where
  "findByUEAndType cfg codeUE t =
     find (\<lambda>c. c_code_ue c = codeUE \<and> c_type_composante c = t) (cf_composantes cfg)"

text \<open>Modelled from the spec: \<open>ComposanteRepository.findById\<close>, missing from the sources; the
  component with this identifier if there is one.\<close>
definition findComposanteById :: "config \<Rightarrow> nat \<Rightarrow> composante option" where
  "findComposanteById cfg i = find (\<lambda>c. c_id c = i) (cf_composantes cfg)"

text \<open>Modelled from the spec: \<open>ComposanteRepository.create\<close>, missing from the sources; the insert
  of the row with the next identifier.\<close>
definition repo_create_composante ::
  "config \<Rightarrow> composante \<Rightarrow> service_error + (composante \<times> config)" where
  "repo_create_composante cfg c =
     (let NEW = c\<lparr>c_id := cf_composantes_id_seq cfg\<rparr>
      in case sql_insert_composante cfg NEW of
           Inl e \<Rightarrow> Inl db_error
         | Inr cfg' \<Rightarrow> Inr (NEW, cfg'))"

text \<open>The keys of \<open>Partial<ComposanteEvaluation>\<close> that are columns a request can set.\<close>

record patch_composante =
  pc_code_ue :: "string option"
  pc_type_composante :: "type_composante option"
  pc_nom_composante :: "string option"
  pc_pourcentage :: "real option"
  pc_nb_points :: "int option"
  pc_ordre :: "int option"

definition patch_composante_vide :: patch_composante where
  "patch_composante_vide =
     \<lparr>pc_code_ue = None, pc_type_composante = None, pc_nom_composante = None,
      pc_pourcentage = None, pc_nb_points = None, pc_ordre = None\<rparr>"

definition apply_patch_composante :: "patch_composante \<Rightarrow> composante \<Rightarrow> composante" where
  "apply_patch_composante p c =
     c\<lparr>c_code_ue := (case pc_code_ue p of None \<Rightarrow> c_code_ue c | Some v \<Rightarrow> v),
       c_type_composante := (case pc_type_composante p of None \<Rightarrow> c_type_composante c | Some v \<Rightarrow> v),
       c_nom_composante := (case pc_nom_composante p of None \<Rightarrow> c_nom_composante c | Some v \<Rightarrow> v),
       c_pourcentage := (case pc_pourcentage p of None \<Rightarrow> c_pourcentage c | Some v \<Rightarrow> v),
       c_nb_points := (case pc_nb_points p of None \<Rightarrow> c_nb_points c | Some v \<Rightarrow> v),
       c_ordre := (case pc_ordre p of None \<Rightarrow> c_ordre c | Some v \<Rightarrow> v)\<rparr>"

text \<open>Modelled from the spec: \<open>ComposanteRepository.update\<close>, missing from the sources; it sets
  the keys that the patch defines on the row with this identifier, as \<open>UERepository.update\<close>
  does on a unit.\<close>
definition repo_update_composante ::
  "config \<Rightarrow> nat \<Rightarrow> patch_composante \<Rightarrow> service_error + (composante \<times> config)" where
  "repo_update_composante cfg i p =
     (case findComposanteById cfg i of
        None \<Rightarrow> Inl (ServiceError ''Component not found'' 404 ''COMPOSANTE_NOT_FOUND'')
      | Some OLD \<Rightarrow>
          (let NEW = apply_patch_composante p OLD
           in case sql_update_composante cfg OLD NEW of
                Inl e \<Rightarrow> Inl db_error
              | Inr cfg' \<Rightarrow> Inr (NEW, cfg')))"

subsection \<open>UEService.addComposante and updateComposante\<close>

record create_composante_dto =
  cc_type_composante :: type_composante
  cc_nom_composante :: string
  cc_pourcentage :: real
  cc_nb_points :: "int option"
  cc_ordre :: "int option"

fun show_type :: "type_composante \<Rightarrow> string" where
  "show_type CC = ''CC''"
| "show_type SN = ''SN''"
| "show_type SR = ''SR''"
| "show_type TP = ''TP''"
| "show_type TPE = ''TPE''"
| "show_type PROJET = ''PROJET''"

text \<open>\<open>x || d\<close> on an optional integer: the default for an absent value and for 0.\<close>

definition ou_defaut :: "int option \<Rightarrow> int \<Rightarrow> int" where
  "ou_defaut v d = (case v of None \<Rightarrow> d | Some x \<Rightarrow> if x = 0 then d else x)"

definition addComposante ::
  "config \<Rightarrow> string \<Rightarrow> create_composante_dto \<Rightarrow> service_error + (composante \<times> config)" where
  "addComposante cfg codeUE data =
     (case findByCode (cf_unites cfg) codeUE of
        None \<Rightarrow> Inl (ServiceError ''UE not found'' 404 ''UE_NOT_FOUND'')
      | Some ue \<Rightarrow>
          if findByUEAndType cfg codeUE (cc_type_composante data) \<noteq> None
          then Inl (ServiceError (''Component '' @ show_type (cc_type_composante data)
                                    @ '' already exists for this UE'') 409 ''COMPOSANTE_EXISTS'')
          else if cc_pourcentage data < 0 \<or> cc_pourcentage data > 100
          then Inl (ServiceError ''Percentage must be between 0 and 100'' 400 ''INVALID_PERCENTAGE'')
          else
            (let nbPoints = ou_defaut (cc_nb_points data) 20
             in if nbPoints \<le> 0 \<or> nbPoints > 100
                then Inl (ServiceError ''Points must be between 1 and 100'' 400 ''INVALID_POINTS'')
                else repo_create_composante cfg
                       \<lparr>c_id = 0,
                        c_code_ue = codeUE,
                        c_type_composante = cc_type_composante data,
                        c_nom_composante = cc_nom_composante data,
                        c_pourcentage = cc_pourcentage data,
                        c_nb_points = nbPoints,
                        c_ordre = ou_defaut (cc_ordre data) 0\<rparr>))"

definition updateComposante ::
  "config \<Rightarrow> nat \<Rightarrow> patch_composante \<Rightarrow> service_error + (composante \<times> config)" where
  "updateComposante cfg composanteId data =
     (case findComposanteById cfg composanteId of
        None \<Rightarrow> Inl (ServiceError ''Component not found'' 404 ''COMPOSANTE_NOT_FOUND'')
      | Some composante \<Rightarrow>
          if (case pc_pourcentage data of None \<Rightarrow> False | Some p \<Rightarrow> p < 0 \<or> p > 100)
          then Inl (ServiceError ''Percentage must be between 0 and 100'' 400 ''INVALID_PERCENTAGE'')
          else if (case pc_nb_points data of None \<Rightarrow> False | Some n \<Rightarrow> n \<le> 0 \<or> n > 100)
          then Inl (ServiceError ''Points must be between 1 and 100'' 400 ''INVALID_POINTS'')
          else repo_update_composante cfg composanteId data)"

text \<open>
  The invariant of the specification on one teaching unit: no component, or weights
  whose sum is within 0.01 of 100.
\<close>

definition poids_ok :: "composante list \<Rightarrow> string \<Rightarrow> bool" where
  "poids_ok table ue_code =
     (somme_pourcentages table ue_code = []
      \<or> \<bar>sum_list (somme_pourcentages table ue_code) - 100\<bar> \<le> 1 / 100)"

section \<open>Inputs of the examples\<close>

text \<open>
  The entries of the example of the specification: a continuous assessment of 12 with
  weight 30 and a normal session of 14 with weight 70, both final.
\<close>

definition ex_CC_SN :: "evaluation_details list" where
  "ex_CC_SN =
     [\<lparr>ed_type_composante = ''CC'', ed_note = 12, ed_note_sur_20 = 12, ed_pourcentage = 30,
       ed_statut = Definitif\<rparr>,
      \<lparr>ed_type_composante = ''SN'', ed_note = 14, ed_note_sur_20 = 14, ed_pourcentage = 70,
       ed_statut = Definitif\<rparr>]"

text \<open>
  Two entries that do not count, one provisional and one pending; a ledger with one
  component and one provisional entry, and a final grade stored for the same student.
\<close>

definition ex_provisoires :: "evaluation_details list" where
  "ex_provisoires =
     [\<lparr>ed_type_composante = ''CC'', ed_note = 12, ed_note_sur_20 = 12, ed_pourcentage = 30,
       ed_statut = Provisoire\<rparr>,
      \<lparr>ed_type_composante = ''SN'', ed_note = 14, ed_note_sur_20 = 14, ed_pourcentage = 70,
       ed_statut = En_attente\<rparr>]"

definition ex_composante_CC :: composante where
  "ex_composante_CC =
     \<lparr>c_id = 1, c_code_ue = ''INF201'', c_type_composante = CC, c_nom_composante = ''Controle Continu'',
      c_pourcentage = 30, c_nb_points = 20, c_ordre = 0\<rparr>"

definition ex_entree :: resultat where
  "ex_entree =
     \<lparr>r_id = 1, r_matricule_etudiant = ''ETU001'', r_composante_id = 1, r_note = 12,
      r_note_sur_20 = 12, r_date_evaluation = 0, r_saisie_par = ''ENS20230001'',
      r_statut = Provisoire, r_mode_saisie = Manuel, r_commentaire = None, r_version = 1\<rparr>"

definition ex_ledger :: ledger where
  "ex_ledger = \<lparr>composantes = [ex_composante_CC], resultats = [ex_entree], resultats_id_seq = 2\<rparr>"

definition ex_note_finale_ue :: note_finale_ue where
  "ex_note_finale_ue =
     \<lparr>nf_matricule_etudiant = ''ETU001'', nf_code_ue = ''INF201'', nf_annee_acad = ''2023-2024'',
      nf_note_finale = 12, nf_est_capitalisee = True, nf_mention = ''assez-bien'',
      nf_version_calcul = 1\<rparr>"

text \<open>Two teaching units of 5 credits each at level L2.\<close>

definition ex_ue :: "string \<Rightarrow> int \<Rightarrow> unite" where
  "ex_ue c k =
     \<lparr>u_code_ue = c, u_nom_ue = c, u_niveau = ''L2'', u_filiere = ''GL'', u_credits_ects = k,
      u_annee_acad = ''2023-2024'', u_statut = Actif, u_deleted_at = None\<rparr>"

definition ex_ues_L2 :: "unite list" where
  "ex_ues_L2 = [ex_ue ''INF201'' 5, ex_ue ''INF202'' 5]"

text \<open>
  Answers of the outside: two known students, one teacher who may enter, validate and
  update notes, and no retake allowed. A ledger whose one entry is cancelled.
\<close>

definition ex_ports :: ports where
  "ex_ports =
     \<lparr>validateEtudiant = (\<lambda>m. m = ''ETU001'' \<or> m = ''ETU002''),
      canSaisirNote = (\<lambda>u code. u = ''ENS20230001''),
      canValidateNote = (\<lambda>u i. u = ''ENS20230001''),
      canUpdateNote = (\<lambda>u i. u = ''ENS20230001''),
      canSetRattrapage = (\<lambda>m i. False)\<rparr>"

definition ex_ledger_annule :: ledger where
  "ex_ledger_annule =
     \<lparr>composantes = [ex_composante_CC], resultats = [ex_entree\<lparr>r_statut := Annule\<rparr>],
      resultats_id_seq = 2\<rparr>"

text \<open>A request to record a note on the component of the example ledger.\<close>

definition ex_saisie :: "string \<Rightarrow> string \<Rightarrow> real \<Rightarrow> create_evaluation_dto" where
  "ex_saisie m u n =
     \<lparr>ce_matricule_etudiant = m, ce_composante_id = 1, ce_note = n, ce_date_evaluation = 86400000,
      ce_saisie_par = u, ce_commentaire = Some ''corrige''\<rparr>"





text \<open>
  The thresholds of the example of the specification, and the four units of 5 credits of
  a level.
\<close>

definition ex_params :: params_deliberation where
  "ex_params = \<lparr>min_capitalisation = 80, max_ue_non_capitalisees = 2\<rparr>"

definition ex_ues_4 :: "unite list" where
  "ex_ues_4 = [ex_ue ''INF201'' 5, ex_ue ''INF202'' 5, ex_ue ''INF203'' 5, ex_ue ''MAT201'' 5]"

text \<open>
  Recaps in the order of the repository: one student at 12 and two at 15 with the same
  weighted average, the later identifier first; and two students with the same
  unweighted average and different weighted averages.
\<close>

definition ex_recap :: "string \<Rightarrow> real \<Rightarrow> real \<Rightarrow> recap_etudiant" where
  "ex_recap m g p =
     \<lparr>re_matricule_etudiant = m, re_moyenne_generale = Some g, re_moyenne_ponderee = Some p,
      re_pourcentage_capitalisation = Some 100, re_decision = None\<rparr>"

definition ex_recaps :: "recap_etudiant list" where
  "ex_recaps = [ex_recap ''ETU003'' 12 12, ex_recap ''ETU002'' 15 15, ex_recap ''ETU001'' 15 15]"

definition ex_recaps_b :: "recap_etudiant list" where
  "ex_recaps_b = [ex_recap ''ETU010'' 11 12, ex_recap ''ETU011'' 11 13]"

definition ex_info :: "string \<Rightarrow> string \<times> string" where
  "ex_info m = (''Nom'', ''Prenom'')"

text \<open>
  Two teaching units, each with one component that carries the whole weight.
\<close>

definition ex_config :: config where
  "ex_config =
     \<lparr>cf_unites = [ex_ue ''INF201'' 5, ex_ue ''INF202'' 6],
      cf_composantes =
        [\<lparr>c_id = 1, c_code_ue = ''INF201'', c_type_composante = CC,
          c_nom_composante = ''Controle Continu'', c_pourcentage = 100, c_nb_points = 20, c_ordre = 0\<rparr>,
         \<lparr>c_id = 2, c_code_ue = ''INF202'', c_type_composante = SN,
          c_nom_composante = ''Session Normale'', c_pourcentage = 100, c_nb_points = 20, c_ordre = 0\<rparr>],
      cf_composantes_id_seq = 3\<rparr>"

text \<open>The example ledger once its entry is final, and its teaching unit.\<close>

definition ex_ledger_definitif :: ledger where
  "ex_ledger_definitif =
     \<lparr>composantes = [ex_composante_CC], resultats = [ex_entree\<lparr>r_note := 1999 / 100, r_note_sur_20 := 1999 / 100, r_statut := Definitif\<rparr>],
      resultats_id_seq = 2\<rparr>"

section \<open>The final grade of a teaching unit\<close>

lemma getNoteFinaleUE_valide:
  "getNoteFinaleUE True (Some u) evs = Inl (Reference_error ''est_capitalisee'')"
  by (simp add: getNoteFinaleUE_def)

lemma getNoteFinaleUE_sans_note: "getNoteFinaleUE etudiantValide ue evs \<noteq> Inr r"
  by (simp add: getNoteFinaleUE_def)

text \<open>
  C1 states that \<open>getNoteFinaleUE\<close> returns the weighted sum of the entries that count,
  with its flag and its mention. The code misses it by the name of one property of the
  object it returns. For a valid student and the unit of the example of the
  specification, with the entries CC 12 of weight 30 and SN 14 of weight 70, both final,
  the function returns no grade: it throws the \<open>ReferenceError\<close> whose message is
  \<open>est_capitalisee is not defined\<close>. By \<open>getNoteFinaleUE_valide\<close> it does so for every
  list of entries.
\<close>

theorem getNoteFinaleUE_reference_error:
  "getNoteFinaleUE True (Some ''INF201'') ex_CC_SN = Inl (Reference_error ''est_capitalisee'')
   \<and> map_sum js_message id (getNoteFinaleUE True (Some ''INF201'') ex_CC_SN)
       = Inl ''est_capitalisee is not defined''"
  by (simp add: getNoteFinaleUE_def)

section \<open>No entry that counts\<close>

lemma entree_non_qualifiante:
  assumes "NEW \<in> set (resultats db)"
    and "list_ex (\<lambda>ce. c_id ce = r_composante_id NEW \<and> c_code_ue ce = code) (composantes db)"
    and "entrees_qualifiantes db (r_matricule_etudiant NEW) code = []"
  shows "\<not> (r_statut NEW = Definitif \<or> r_statut NEW = Rattrapage)"
proof
  assume q: "r_statut NEW = Definitif \<or> r_statut NEW = Rattrapage"
  with assms(1,2) have "NEW \<in> set (entrees_qualifiantes db (r_matricule_etudiant NEW) code)"
    by (simp add: entrees_qualifiantes_def)
  with assms(3) show False by simp
qed

text \<open>
  The trigger does write when the row is final. The entry of 19.99 with weight 30 gives
  the student the sum 5.997 in the unit: the grade is stored as 6.00, the flag and the
  mention are those of 5.997.
\<close>

lemma trg_update_note_finale_ecrit:
  "trg_update_note_finale ex_ledger_definitif [ex_ue ''INF201'' 5] []
     (ex_entree\<lparr>r_note := 1999 / 100, r_note_sur_20 := 1999 / 100, r_statut := Definitif\<rparr>) =
     Inr [\<lparr>nf_matricule_etudiant = ''ETU001'', nf_code_ue = ''INF201'',
           nf_annee_acad = ''2023-2024'', nf_note_finale = 6, nf_est_capitalisee = False,
           nf_mention = ''echec'', nf_version_calcul = 1\<rparr>]"
  by (simp add: trg_update_note_finale_def update_note_finale_ue_def ue_de_composante_def
        contributions_sql_def mention_sql_def check_note_finale_ue_def numeric_scale_2_def
        ex_ledger_definitif_def ex_entree_def ex_composante_CC_def ex_ue_def)

text \<open>
  C2. When no entry of the student in the unit has the status \<open>definitif\<close> or
  \<open>rattrapage\<close>, no final grade is written and none is produced or returned.
  \<open>getNoteFinaleUE\<close> calls no write and returns no grade, of zero or other: it ends in
  the error of one of its two checks or in the \<open>ReferenceError\<close> of its return
  statement. The trigger of the ledger leaves the table of final grades as it is, since
  the row just written is one of those entries and the trigger runs for a final or
  retake row only; run again on the table it returns, it returns that table again.
\<close>

theorem sans_entree_qualifiante:
  "(qualifiantes evaluations = [] \<longrightarrow>
      (\<forall>r. getNoteFinaleUE etudiantValide ue evaluations \<noteq> Inr r))
   \<and> (NEW \<in> set (resultats db)
        \<and> list_ex (\<lambda>ce. c_id ce = r_composante_id NEW \<and> c_code_ue ce = code) (composantes db)
        \<and> entrees_qualifiantes db (r_matricule_etudiant NEW) code = [] \<longrightarrow>
      trg_update_note_finale db unites nfs NEW = Inr nfs)"
proof (intro conjI impI allI)
  fix r
  show "getNoteFinaleUE etudiantValide ue evaluations \<noteq> Inr r"
    by (rule getNoteFinaleUE_sans_note)
next
  assume "NEW \<in> set (resultats db)
        \<and> list_ex (\<lambda>ce. c_id ce = r_composante_id NEW \<and> c_code_ue ce = code) (composantes db)
        \<and> entrees_qualifiantes db (r_matricule_etudiant NEW) code = []"
  then have "\<not> (r_statut NEW = Definitif \<or> r_statut NEW = Rattrapage)"
    using entree_non_qualifiante by blast
  then show "trg_update_note_finale db unites nfs NEW = Inr nfs"
    by (simp add: trg_update_note_finale_def)
qed

lemma ex_prov: "qualifiantes ex_provisoires = []"
  by (simp add: qualifiantes_def ex_provisoires_def)

lemma ex_ledger_sans: "ex_entree \<in> set (resultats ex_ledger)
        \<and> list_ex (\<lambda>ce. c_id ce = r_composante_id ex_entree \<and> c_code_ue ce = ''INF201'') (composantes ex_ledger)
        \<and> entrees_qualifiantes ex_ledger (r_matricule_etudiant ex_entree) ''INF201'' = []"
  by (simp add: ex_ledger_def ex_entree_def ex_composante_CC_def entrees_qualifiantes_def)

theorem sans_entree_qualifiante_witness:
  "qualifiantes ex_provisoires = []
   \<and> getNoteFinaleUE True (Some ''INF201'') ex_provisoires
       \<noteq> Inr \<lparr>note_finale = 0, est_capitalisee = False, mention = ''elimine'', details = []\<rparr>
   \<and> ex_entree \<in> set (resultats ex_ledger)
   \<and> list_ex (\<lambda>ce. c_id ce = r_composante_id ex_entree \<and> c_code_ue ce = ''INF201'') (composantes ex_ledger)
   \<and> entrees_qualifiantes ex_ledger (r_matricule_etudiant ex_entree) ''INF201'' = []
   \<and> trg_update_note_finale ex_ledger [] [ex_note_finale_ue] ex_entree = Inr [ex_note_finale_ue]"
  using sans_entree_qualifiante [of ex_provisoires True "Some ''INF201''" ex_entree ex_ledger "''INF201''" "[]" "[ex_note_finale_ue]"]
    ex_prov ex_ledger_sans
  by simp

section \<open>The recap of a student\<close>

lemma calculerMoyennesEtudiant_Inl:
  "calculerMoyennesEtudiant etudiantValide ues m niv a = Inl (Reference_error ''matricule_etudiant'')"
  by (simp add: calculerMoyennesEtudiant_def calculerMoyennesEtudiant_catch_def)

text \<open>
  C3 states what the recap of \<open>calculerMoyennesEtudiant\<close> holds and that the function
  fails with the error of a level without teaching units. The code misses both by the
  name of one property. For an enrolled student and a level without units, the body
  throws \<open>NO_UE_FOUND\<close>, and the \<open>catch\<close> replaces it by the \<open>ReferenceError\<close> of
  \<open>matricule_etudiant\<close>; for the same student and a level of two units, the function
  throws the same error and returns no recap. By \<open>calculerMoyennesEtudiant_Inl\<close> it does
  so on every input.
\<close>

theorem calculerMoyennesEtudiant_reference_error:
  "calculerMoyennesEtudiant_try True [] =
     Service_error (ServiceError ''No UE found for this level and academic year'' 404 ''NO_UE_FOUND'')
   \<and> calculerMoyennesEtudiant True [] ''ETU001'' ''L2'' ''2023-2024''
       = Inl (Reference_error ''matricule_etudiant'')
   \<and> calculerMoyennesEtudiant True ex_ues_L2 ''ETU001'' ''L2'' ''2023-2024''
       = Inl (Reference_error ''matricule_etudiant'')"
  by (simp add: calculerMoyennesEtudiant_def calculerMoyennesEtudiant_catch_def
        calculerMoyennesEtudiant_try_def)

section \<open>The status of an entry\<close>

lemma repo_update_Inr:
  assumes "findById db i = Some e" and "getComposante db (r_composante_id e) = Some c"
  shows "repo_update db i p =
           Inr (apply_patch c p e, db\<lparr>resultats := update_row i (apply_patch c p e) (resultats db)\<rparr>)"
  using assms by (simp add: repo_update_def Let_def)

lemma apply_patch_statut:
  "apply_patch c (patch_vide\<lparr>p_statut := Some st, p_version := Some v\<rparr>) e =
     e\<lparr>r_note_sur_20 := sql_note_sur_20 (c_nb_points c) (r_note e), r_statut := st, r_version := v\<rparr>"
  by (simp add: apply_patch_def patch_vide_def)

lemma apply_patch_valider:
  "apply_patch c (patch_vide\<lparr>p_statut := Some st\<rparr>) e =
     e\<lparr>r_note_sur_20 := sql_note_sur_20 (c_nb_points c) (r_note e), r_statut := st\<rparr>"
  by (simp add: apply_patch_def patch_vide_def)

text \<open>
  C4, as the code has it. \<open>updateEvaluationStatus\<close> enforces no state machine. For an
  entry that exists, it fails with \<open>NOT_AUTHORIZED\<close> when the actor may not update the
  note and with \<open>CANNOT_SET_RATTRAPAGE\<close> when the requested status is \<open>rattrapage\<close> and
  the retake is not allowed; in every other case it sets the requested status, whatever
  the current status of the entry, and increments the version by 1. A failure returns no
  ledger: the entry is unchanged. \<open>validateEvaluation\<close> refuses an entry that is already
  \<open>definitif\<close> and sets any other entry to \<open>definitif\<close> for an actor who may validate.
\<close>

theorem updateEvaluationStatus_sans_automate:
  assumes "findById db i = Some e" and "getComposante db (r_composante_id e) = Some c"
  shows "(\<not> canUpdateNote io u (r_composante_id e) \<longrightarrow>
            updateEvaluationStatus io db i st u =
              Inl (ServiceError ''Not authorized to update this evaluation'' 403 ''NOT_AUTHORIZED''))
       \<and> (canUpdateNote io u (r_composante_id e) \<and> st = Rattrapage
            \<and> \<not> canSetRattrapage io (r_matricule_etudiant e) (r_composante_id e) \<longrightarrow>
            updateEvaluationStatus io db i st u =
              Inl (ServiceError ''Cannot set evaluation as rattrapage'' 400 ''CANNOT_SET_RATTRAPAGE''))
       \<and> (canUpdateNote io u (r_composante_id e)
            \<and> (st = Rattrapage \<longrightarrow> canSetRattrapage io (r_matricule_etudiant e) (r_composante_id e)) \<longrightarrow>
            updateEvaluationStatus io db i st u =
              Inr (e\<lparr>r_note_sur_20 := sql_note_sur_20 (c_nb_points c) (r_note e),
                     r_statut := st, r_version := r_version e + 1\<rparr>,
                   db\<lparr>resultats :=
                        update_row i (e\<lparr>r_note_sur_20 := sql_note_sur_20 (c_nb_points c) (r_note e),
                                        r_statut := st, r_version := r_version e + 1\<rparr>)
                          (resultats db)\<rparr>))
       \<and> (r_statut e = Definitif \<longrightarrow>
            validateEvaluation io db i u =
              Inl (ServiceError ''Evaluation already validated'' 400 ''ALREADY_VALIDATED''))
       \<and> (r_statut e \<noteq> Definitif \<and> canValidateNote io u (r_composante_id e) \<longrightarrow>
            map_sum id (r_statut \<circ> fst) (validateEvaluation io db i u) = Inr Definitif)"
  using assms
  by (simp add: updateEvaluationStatus_def validateEvaluation_def repo_update_Inr
        apply_patch_statut apply_patch_valider)

lemma ex_annule_find:
  "findById ex_ledger_annule 1 = Some (ex_entree\<lparr>r_statut := Annule\<rparr>)"
  "getComposante ex_ledger_annule (r_composante_id (ex_entree\<lparr>r_statut := Annule\<rparr>)) = Some ex_composante_CC"
  by (simp_all add: findById_def getComposante_def ex_ledger_annule_def ex_entree_def ex_composante_CC_def)

theorem updateEvaluationStatus_sans_automate_witness:
  "findById ex_ledger_annule 1 = Some (ex_entree\<lparr>r_statut := Annule\<rparr>)
   \<and> getComposante ex_ledger_annule (r_composante_id (ex_entree\<lparr>r_statut := Annule\<rparr>)) = Some ex_composante_CC
   \<and> canUpdateNote ex_ports ''ENS20230001'' 1
   \<and> map_sum id (\<lambda>(r, d). (r_statut r, r_version r, map r_statut (resultats d)))
       (updateEvaluationStatus ex_ports ex_ledger_annule 1 Definitif ''ENS20230001'')
       = Inr (Definitif, 2, [Definitif])
   \<and> updateEvaluationStatus ex_ports ex_ledger_annule 1 Rattrapage ''ENS20230001''
       = Inl (ServiceError ''Cannot set evaluation as rattrapage'' 400 ''CANNOT_SET_RATTRAPAGE'')
   \<and> updateEvaluationStatus ex_ports ex_ledger_annule 1 Definitif ''ENS20230002''
       = Inl (ServiceError ''Not authorized to update this evaluation'' 403 ''NOT_AUTHORIZED'')"
  using updateEvaluationStatus_sans_automate [OF ex_annule_find, of ex_ports "''ENS20230001''" Definitif]
    updateEvaluationStatus_sans_automate [OF ex_annule_find, of ex_ports "''ENS20230001''" Rattrapage]
    updateEvaluationStatus_sans_automate [OF ex_annule_find, of ex_ports "''ENS20230002''" Definitif]
    ex_annule_find
  by (simp add: ex_ports_def ex_entree_def ex_ledger_annule_def)

text \<open>
  C4 as the specification states it fails: a cancelled entry, terminal in the state
  machine, is set back to provisional.
\<close>

theorem updateEvaluationStatus_counterexample:
  "\<not> transition_permise Annule Provisoire
   \<and> map r_statut (resultats ex_ledger_annule) = [Annule]
   \<and> map_sum id (\<lambda>(r, d). (r_statut r, map r_statut (resultats d)))
       (updateEvaluationStatus ex_ports ex_ledger_annule 1 Provisoire ''ENS20230001'')
       = Inr (Provisoire, [Provisoire])"
  by (simp add: updateEvaluationStatus_def repo_update_def findById_def getComposante_def
        apply_patch_statut ex_ports_def ex_ledger_annule_def ex_entree_def ex_composante_CC_def
        Let_def)

section \<open>Recording an entry\<close>








lemma ex_ledger_faits:
  "distinct (map r_id (resultats ex_ledger))"
  "getComposante ex_ledger (ce_composante_id (ex_saisie m u n)) = Some ex_composante_CC"
  "findByEtudiantAndComposante ex_ledger ''ETU001'' (ce_composante_id (ex_saisie m u n)) = Some ex_entree"
  by (simp_all add: ex_ledger_def getComposante_def findByEtudiantAndComposante_def ex_saisie_def
        ex_composante_CC_def ex_entree_def)




section \<open>A batch of entries\<close>

text \<open>
  What holds of every batch that the function takes: each item is counted once, as a
  success or as a failure, and each failure leaves one entry in \<open>errors\<close>, with the
  identifier of the student of the item.
\<close>

lemma boucle_batch_compteurs:
  "boucle_batch io pool c data items res db = (res', db') \<Longrightarrow>
     success res' + failed res' = success res + failed res + length items
     \<and> length (errors res') + failed res = length (errors res) + failed res'
     \<and> set (map fst (errors res')) \<subseteq> set (map fst (errors res)) \<union> set (map bi_matricule_etudiant items)"
proof (induction items arbitrary: res db)
  case Nil
  then show ?case by simp
next
  case (Cons e items)
  show ?case
  proof (cases "traiter_item io pool c data db e")
    case (Inl err)
    with Cons.prems Cons.IH [of "res\<lparr>failed := failed res + 1,
                      errors := errors res @ [(bi_matricule_etudiant e, js_message err)]\<rparr>" db]
    show ?thesis by auto
  next
    case (Inr db1)
    with Cons.prems Cons.IH [of "res\<lparr>success := success res + 1\<rparr>" db1]
    show ?thesis by auto
  qed
qed

lemma createBatchEvaluations_compteurs:
  assumes "createBatchEvaluations io pool db data = Inr (res, db')"
  shows "success res + failed res = length (be_evaluations data)
         \<and> length (errors res) = failed res"
proof -
  from assms obtain c where
    "boucle_batch io pool c data (be_evaluations data) \<lparr>success = 0, failed = 0, errors = []\<rparr> db
       = (res, db')"
    by (auto simp add: createBatchEvaluations_def split: option.splits if_splits)
  from boucle_batch_compteurs [OF this] show ?thesis by simp
qed

text \<open>
  An item that passes the two checks, for a student without an entry on the component,
  leaves the ledger as it was, whatever the database answers to \<open>create\<close>.
\<close>

lemma traiter_item_sans_entree:
  assumes "findByEtudiantAndComposante db (bi_matricule_etudiant e) (be_composante_id data) = None"
    and "traiter_item io pool c data db e = Inr db'"
  shows "db' = db"
  using assms
  by (auto simp add: traiter_item_def repo_create_def split: if_splits sum.splits)


section \<open>Eligibility for deliberation\<close>

text \<open>
  C9 states that \<open>verifierEligibiliteDeliberation\<close> returns the verdict of the two
  criteria. The code misses it: with the thresholds of the example of the specification
  configured, for an enrolled student and a level of four units, the function calls
  \<open>calculerMoyennesEtudiant\<close> and throws its \<open>ReferenceError\<close> again; it returns no
  verdict, and by \<open>calculerMoyennesEtudiant_Inl\<close> it returns none for any student of
  a level with parameters. Without parameters it fails with \<open>PARAMS_NOT_FOUND\<close>.
\<close>

theorem verifierEligibiliteDeliberation_reference_error:
  "verifierEligibiliteDeliberation (Some ex_params) True ex_ues_4 ''ETU001'' ''L2'' ''2023-2024''
     = Inl (Reference_error ''matricule_etudiant'')
   \<and> verifierEligibiliteDeliberation None True ex_ues_4 ''ETU001'' ''L2'' ''2023-2024''
     = Inl (Service_error
              (ServiceError ''Deliberation parameters not found for this level'' 404
                 ''PARAMS_NOT_FOUND''))"
  by (simp add: verifierEligibiliteDeliberation_def calculerMoyennesEtudiant_Inl)

section \<open>The ranking of a level\<close>

lemma compare_recaps_cle:
  assumes "re_moyenne_generale a \<noteq> None" and "re_moyenne_generale b \<noteq> None"
  shows "(compare_recaps a b \<le> 0) = (cle_recap a \<le> cle_recap b)"
  using assms
  by (auto simp add: compare_recaps_def cle_recap_def ou_zero_def less_eq_prod_def)

lemma insort_cmp_cle:
  assumes "re_moyenne_generale x \<noteq> None" and "\<forall>y \<in> set ys. re_moyenne_generale y \<noteq> None"
  shows "insort_cmp compare_recaps x ys = insort_key cle_recap x ys"
  using assms by (induction ys) (simp_all add: compare_recaps_cle)

lemma sort_cmp_cle:
  assumes "\<forall>y \<in> set xs. re_moyenne_generale y \<noteq> None"
  shows "sort_cmp compare_recaps xs = sort_key cle_recap xs"
  using assms
proof (induction xs)
  case Nil
  then show ?case by (simp add: sort_cmp_def)
next
  case (Cons x xs)
  then have ih: "sort_cmp compare_recaps xs = sort_key cle_recap xs" by simp
  have "\<forall>y \<in> set (sort_key cle_recap xs). re_moyenne_generale y \<noteq> None"
    using Cons.prems by simp
  with Cons.prems ih show ?case
    by (simp add: sort_cmp_def insort_cmp_cle)
qed

lemma mset_insort_cmp: "mset (insort_cmp c x ys) = add_mset x (mset ys)"
  by (induction ys) simp_all

lemma mset_sort_cmp: "mset (sort_cmp c xs) = mset xs"
  by (induction xs) (simp_all add: sort_cmp_def mset_insort_cmp)

lemma boucle_classement_rangs:
  "map rang (boucle_classement info rs i) = [Suc i ..< Suc i + length rs]"
proof (induction rs arbitrary: i)
  case Nil
  then show ?case by simp
next
  case (Cons r rs)
  have "[Suc i ..< Suc i + length (r # rs)] = Suc i # [Suc (Suc i) ..< Suc (Suc i) + length rs]"
    by (subst upt_rec) simp
  with Cons [of "Suc i"] show ?case by simp
qed

lemma boucle_classement_champs:
  "map cl_matricule (boucle_classement info rs i) = map re_matricule_etudiant rs
   \<and> map cl_moyenne_generale (boucle_classement info rs i) = map (\<lambda>r. ou_zero (re_moyenne_generale r)) rs
   \<and> length (boucle_classement info rs i) = length rs"
  by (induction rs arbitrary: i) simp_all


lemma ordre_des_cles:
  assumes "sorted (map cle_recap tries)" and "i < j" and "j < length tries"
  shows "ou_zero (re_moyenne_generale (tries ! i)) > ou_zero (re_moyenne_generale (tries ! j))
         \<or> (ou_zero (re_moyenne_generale (tries ! i)) = ou_zero (re_moyenne_generale (tries ! j))
            \<and> ou_zero (re_moyenne_ponderee (tries ! i)) \<ge> ou_zero (re_moyenne_ponderee (tries ! j)))"
proof -
  have "map cle_recap tries ! i \<le> map cle_recap tries ! j"
    using assms by (simp add: sorted_iff_nth_mono del: nth_map)
  then have "cle_recap (tries ! i) \<le> cle_recap (tries ! j)"
    using assms by simp
  then show ?thesis
    by (auto simp add: cle_recap_def less_eq_prod_def)
qed

lemma ex_recaps_tries:
  "sort_cmp compare_recaps ex_recaps =
     [ex_recap ''ETU002'' 15 15, ex_recap ''ETU001'' 15 15, ex_recap ''ETU003'' 12 12]"
  by (simp add: sort_cmp_def ex_recaps_def compare_recaps_def ex_recap_def ou_zero_def)

lemma ex_classement:
  "map_sum id (map (\<lambda>c. (rang c, cl_matricule c, cl_moyenne_generale c)))
     (calculerClassementNiveau ex_info ex_recaps)
     = Inr [(1, ''ETU002'', 15), (2, ''ETU001'', 15), (3, ''ETU003'', 12)]"
  by (simp add: calculerClassementNiveau_def ex_recaps_tries)
     (simp add: ex_recaps_def ex_recap_def ou_zero_def)

text \<open>
  C6, as the code has it. For a list of recaps that is not empty,
  \<open>calculerClassementNiveau\<close> returns the students in a permutation of the list with the
  ranks 1, 2, ... in sequence, so that no two students share a rank. When every recap has
  its unweighted average, the order is descending by unweighted average, ties being
  broken by the weighted average, descending; students whose two averages are equal keep
  the order in which the repository returned them, there is no further tie-break on the
  identifier. Two students at 15 and one at 12 get the ranks 1, 2 and 3. On an empty
  list it fails with \<open>NO_STUDENTS_FOUND\<close>.
\<close>

theorem calculerClassementNiveau_ordre:
  "calculerClassementNiveau info [] =
     Inl (ServiceError ''No students found for this level'' 404 ''NO_STUDENTS_FOUND'')
   \<and> (recaps \<noteq> [] \<longrightarrow>
        (\<exists>cl tries. calculerClassementNiveau info recaps = Inr cl
          \<and> mset tries = mset recaps
          \<and> map cl_matricule cl = map re_matricule_etudiant tries
          \<and> map rang cl = [1 ..< Suc (length recaps)]
          \<and> (moyennes_presentes recaps \<longrightarrow>
                (\<forall>i j. i < j \<and> j < length tries \<longrightarrow>
                    ou_zero (re_moyenne_generale (tries ! i)) > ou_zero (re_moyenne_generale (tries ! j))
                    \<or> (ou_zero (re_moyenne_generale (tries ! i)) = ou_zero (re_moyenne_generale (tries ! j))
                       \<and> ou_zero (re_moyenne_ponderee (tries ! i)) \<ge> ou_zero (re_moyenne_ponderee (tries ! j))))
              \<and> (\<forall>k. filter (\<lambda>r. cle_recap r = k) tries = filter (\<lambda>r. cle_recap r = k) recaps))))
   \<and> map_sum id (map (\<lambda>c. (rang c, cl_matricule c, cl_moyenne_generale c)))
        (calculerClassementNiveau ex_info ex_recaps)
        = Inr [(1, ''ETU002'', 15), (2, ''ETU001'', 15), (3, ''ETU003'', 12)]"
proof (intro conjI impI)
  show "calculerClassementNiveau info [] =
     Inl (ServiceError ''No students found for this level'' 404 ''NO_STUDENTS_FOUND'')"
    by (simp add: calculerClassementNiveau_def)
  show "map_sum id (map (\<lambda>c. (rang c, cl_matricule c, cl_moyenne_generale c)))
        (calculerClassementNiveau ex_info ex_recaps)
        = Inr [(1, ''ETU002'', 15), (2, ''ETU001'', 15), (3, ''ETU003'', 12)]"
    by (rule ex_classement)
next
  assume ne: "recaps \<noteq> []"
  let ?tries = "sort_cmp compare_recaps recaps"
  let ?cl = "boucle_classement info ?tries 0"
  have len: "length ?tries = length recaps"
    using mset_sort_cmp [of compare_recaps recaps] by (metis size_mset)
  have r: "calculerClassementNiveau info recaps = Inr ?cl"
    using ne by (simp add: calculerClassementNiveau_def)
  have m: "mset ?tries = mset recaps" by (rule mset_sort_cmp)
  have n: "map cl_matricule ?cl = map re_matricule_etudiant ?tries"
    using boucle_classement_champs by blast
  have g: "map rang ?cl = [1 ..< Suc (length recaps)]"
    by (simp add: boucle_classement_rangs len)
  have o: "(\<forall>i j. i < j \<and> j < length ?tries \<longrightarrow>
                ou_zero (re_moyenne_generale (?tries ! i)) > ou_zero (re_moyenne_generale (?tries ! j))
                \<or> (ou_zero (re_moyenne_generale (?tries ! i)) = ou_zero (re_moyenne_generale (?tries ! j))
                   \<and> ou_zero (re_moyenne_ponderee (?tries ! i)) \<ge> ou_zero (re_moyenne_ponderee (?tries ! j))))
           \<and> (\<forall>k. filter (\<lambda>r. cle_recap r = k) ?tries = filter (\<lambda>r. cle_recap r = k) recaps)"
    if p: "moyennes_presentes recaps"
  proof -
    have "\<forall>y \<in> set recaps. re_moyenne_generale y \<noteq> None"
      using p by (simp add: moyennes_presentes_def list_all_iff)
    then have eq: "?tries = sort_key cle_recap recaps" by (rule sort_cmp_cle)
    have s: "sorted (map cle_recap ?tries)" by (simp add: eq)
    have st: "filter (\<lambda>r. cle_recap r = k) ?tries = filter (\<lambda>r. cle_recap r = k) recaps" for k
      by (simp add: eq sort_key_stable)
    from s st show ?thesis using ordre_des_cles by blast
  qed
  from r m n g o
  show "\<exists>cl tries. calculerClassementNiveau info recaps = Inr cl
          \<and> mset tries = mset recaps
          \<and> map cl_matricule cl = map re_matricule_etudiant tries
          \<and> map rang cl = [1 ..< Suc (length recaps)]
          \<and> (moyennes_presentes recaps \<longrightarrow>
                (\<forall>i j. i < j \<and> j < length tries \<longrightarrow>
                    ou_zero (re_moyenne_generale (tries ! i)) > ou_zero (re_moyenne_generale (tries ! j))
                    \<or> (ou_zero (re_moyenne_generale (tries ! i)) = ou_zero (re_moyenne_generale (tries ! j))
                       \<and> ou_zero (re_moyenne_ponderee (tries ! i)) \<ge> ou_zero (re_moyenne_ponderee (tries ! j))))
              \<and> (\<forall>k. filter (\<lambda>r. cle_recap r = k) tries = filter (\<lambda>r. cle_recap r = k) recaps))"
    by blast
qed

theorem calculerClassementNiveau_ordre_witness:
  "ex_recaps_b \<noteq> [] \<and> moyennes_presentes ex_recaps_b
   \<and> (\<exists>cl tries. calculerClassementNiveau ex_info ex_recaps_b = Inr cl
        \<and> map rang cl = [1, 2]
        \<and> map cl_matricule cl = map re_matricule_etudiant tries
        \<and> mset tries = mset ex_recaps_b
        \<and> ou_zero (re_moyenne_ponderee (tries ! 0)) \<ge> ou_zero (re_moyenne_ponderee (tries ! 1)))"
proof -
  have ne: "ex_recaps_b \<noteq> []" and p: "moyennes_presentes ex_recaps_b"
    and l: "length ex_recaps_b = 2"
    by (simp_all add: ex_recaps_b_def moyennes_presentes_def ex_recap_def)
  have mg: "\<forall>r \<in> set ex_recaps_b. ou_zero (re_moyenne_generale r) = 11"
    by (simp add: ex_recaps_b_def ex_recap_def ou_zero_def)
  have th: "\<exists>cl tries. calculerClassementNiveau ex_info ex_recaps_b = Inr cl
          \<and> mset tries = mset ex_recaps_b
          \<and> map cl_matricule cl = map re_matricule_etudiant tries
          \<and> map rang cl = [1 ..< Suc (length ex_recaps_b)]
          \<and> (moyennes_presentes ex_recaps_b \<longrightarrow>
                (\<forall>i j. i < j \<and> j < length tries \<longrightarrow>
                    ou_zero (re_moyenne_generale (tries ! i)) > ou_zero (re_moyenne_generale (tries ! j))
                    \<or> (ou_zero (re_moyenne_generale (tries ! i)) = ou_zero (re_moyenne_generale (tries ! j))
                       \<and> ou_zero (re_moyenne_ponderee (tries ! i)) \<ge> ou_zero (re_moyenne_ponderee (tries ! j))))
              \<and> (\<forall>k. filter (\<lambda>r. cle_recap r = k) tries = filter (\<lambda>r. cle_recap r = k) ex_recaps_b))"
    using calculerClassementNiveau_ordre [of ex_info ex_recaps_b] ne by (elim conjE) (erule mp)
  then obtain cl tries where c: "calculerClassementNiveau ex_info ex_recaps_b = Inr cl"
    and m: "mset tries = mset ex_recaps_b"
    and n: "map cl_matricule cl = map re_matricule_etudiant tries"
    and g: "map rang cl = [1 ..< Suc (length ex_recaps_b)]"
    and o': "moyennes_presentes ex_recaps_b \<longrightarrow>
                (\<forall>i j. i < j \<and> j < length tries \<longrightarrow>
                    ou_zero (re_moyenne_generale (tries ! i)) > ou_zero (re_moyenne_generale (tries ! j))
                    \<or> (ou_zero (re_moyenne_generale (tries ! i)) = ou_zero (re_moyenne_generale (tries ! j))
                       \<and> ou_zero (re_moyenne_ponderee (tries ! i)) \<ge> ou_zero (re_moyenne_ponderee (tries ! j))))
              \<and> (\<forall>k. filter (\<lambda>r. cle_recap r = k) tries = filter (\<lambda>r. cle_recap r = k) ex_recaps_b)"
    by (elim exE conjE)
  have "size (mset tries) = size (mset ex_recaps_b)" using m by (rule arg_cong)
  then have lt: "length tries = 2" using l by simp
  have "set_mset (mset tries) = set_mset (mset ex_recaps_b)" using m by (rule arg_cong)
  then have s: "set tries = set ex_recaps_b" by simp
  have "tries ! 0 \<in> set tries" "tries ! 1 \<in> set tries" using lt by simp_all
  then have e: "ou_zero (re_moyenne_generale (tries ! 0)) = 11" "ou_zero (re_moyenne_generale (tries ! 1)) = 11"
    using s mg by blast+
  from o' p have "\<forall>i j. i < j \<and> j < length tries \<longrightarrow>
                    ou_zero (re_moyenne_generale (tries ! i)) > ou_zero (re_moyenne_generale (tries ! j))
                    \<or> (ou_zero (re_moyenne_generale (tries ! i)) = ou_zero (re_moyenne_generale (tries ! j))
                       \<and> ou_zero (re_moyenne_ponderee (tries ! i)) \<ge> ou_zero (re_moyenne_ponderee (tries ! j)))"
    by (elim impE conjE)
  then have "(0::nat) < 1 \<and> 1 < length tries \<longrightarrow>
                ou_zero (re_moyenne_generale (tries ! 0)) > ou_zero (re_moyenne_generale (tries ! 1))
                \<or> (ou_zero (re_moyenne_generale (tries ! 0)) = ou_zero (re_moyenne_generale (tries ! 1))
                   \<and> ou_zero (re_moyenne_ponderee (tries ! 0)) \<ge> ou_zero (re_moyenne_ponderee (tries ! 1)))"
    by (elim allE)
  with e lt have w: "ou_zero (re_moyenne_ponderee (tries ! 0)) \<ge> ou_zero (re_moyenne_ponderee (tries ! 1))"
    by simp
  have r: "map rang cl = [1, 2]" using g l by (simp add: upt_rec)
  have "\<exists>cl tries. calculerClassementNiveau ex_info ex_recaps_b = Inr cl
        \<and> map rang cl = [1, 2]
        \<and> map cl_matricule cl = map re_matricule_etudiant tries
        \<and> mset tries = mset ex_recaps_b
        \<and> ou_zero (re_moyenne_ponderee (tries ! 0)) \<ge> ou_zero (re_moyenne_ponderee (tries ! 1))"
    using c r n m w by (intro exI [of _ cl] exI [of _ tries] conjI)
  with ne p show ?thesis by (intro conjI)
qed

text \<open>
  C6 as the specification states it fails: of two students with the same averages the
  one with the later identifier, returned first by the repository, gets rank 1.
\<close>

theorem calculerClassementNiveau_counterexample:
  "map_sum id (map (\<lambda>c. (rang c, cl_matricule c, cl_moyenne_generale c)))
     (calculerClassementNiveau ex_info
        [ex_recap ''ETU003'' 12 12, ex_recap ''ETU002'' 15 15, ex_recap ''ETU001'' 15 15])
     = Inr [(1, ''ETU002'', 15), (2, ''ETU001'', 15), (3, ''ETU003'', 12)]
   \<and> ''ETU001'' < ''ETU002''"
  by (simp add: calculerClassementNiveau_def sort_cmp_def compare_recaps_def ex_recap_def ou_zero_def)

section \<open>The weights of the components\<close>

text \<open>
  C8 states that every create or update of a component that would break the sum of the
  weights of a unit is rejected. The code misses a case: \<open>updateComposante\<close> checks only
  the range of a percentage, and the trigger checks, for an update, the unit of the old
  row. Moving the component of INF201 to INF202, where the weights already sum to 100, is
  accepted and leaves INF202 with a sum of 200.
\<close>

theorem updateComposante_change_unite:
  "poids_ok (cf_composantes ex_config) ''INF201''
   \<and> poids_ok (cf_composantes ex_config) ''INF202''
   \<and> map_sum id (\<lambda>(c, cfg'). (c_code_ue c, somme_pourcentages (cf_composantes cfg') ''INF202'',
                                poids_ok (cf_composantes cfg') ''INF202''))
        (updateComposante ex_config 1 (patch_composante_vide\<lparr>pc_code_ue := Some ''INF202''\<rparr>))
        = Inr (''INF202'', [100, 100], False)"
  by (simp add: updateComposante_def repo_update_composante_def sql_update_composante_def
        findComposanteById_def apply_patch_composante_def patch_composante_vide_def
        contraintes_composante_def check_composante_def check_ue_percentage_total_def
        somme_pourcentages_def poids_ok_def ex_config_def ex_ue_def Let_def)

end
